theory Spec2Isabelle
  imports Main "HOL-Library.Sublist"
begin

section \<open>The SQLite notebook: a shallow embedding\<close>

text \<open>
  The repository is one Jupyter notebook, \<^verbatim>\<open>sqlite-demo.ipynb\<close>. Its Python is short:
  \<^item> \<^verbatim>\<open>clean_name\<close> (security section), a sanitiser for table and column names;
  \<^item> the statement texts the cells build with \<^verbatim>\<open>str.format\<close>;
  \<^item> \<^verbatim>\<open>close\<close>, \<^verbatim>\<open>total_rows\<close>, \<^verbatim>\<open>table_col_info\<close> and \<^verbatim>\<open>values_in_col\<close> (summary
    section) and the main block that calls them;
  \<^item> the SQL it hands to the database engine, which is not part of the repository.

  Python strings are modelled as \<^typ>\<open>string\<close>, Python's \<^verbatim>\<open>None\<close>, \<^verbatim>\<open>int\<close> and \<^verbatim>\<open>str\<close>
  cell values as the datatype \<open>val\<close>, a raised exception as \<open>Inl\<close> of an \<open>error\<close>.
\<close>

subsection \<open>Values and exceptions\<close>

datatype val = Null | IntV int | TextV string

datatype error =
    NoSuchTable string     \<comment> \<open>\<^verbatim>\<open>sqlite3.OperationalError: no such table\<close> (the spec's TableNotFound)\<close>
  | NoSuchColumn string    \<comment> \<open>\<^verbatim>\<open>sqlite3.OperationalError: no such column\<close>\<close>
  | SyntaxError            \<comment> \<open>\<^verbatim>\<open>sqlite3.OperationalError: near "...": syntax error\<close>\<close>
  | IntegrityError         \<comment> \<open>\<^verbatim>\<open>sqlite3.IntegrityError\<close> (the spec's ConstraintViolation)\<close>
  | ProgrammingError       \<comment> \<open>\<^verbatim>\<open>sqlite3.ProgrammingError\<close>: the connection is closed\<close>
  | NameError              \<comment> \<open>a module-level name is not bound\<close>
  | IndexError             \<comment> \<open>a tuple or list index out of range\<close>

subsection \<open>\<^verbatim>\<open>clean_name\<close>\<close>

text \<open>
  \<^verbatim>\<open>
  def clean_name(some_var):
      return ''.join(char for char in some_var if char.isalnum())
  \<close>
  \<^verbatim>\<open>str.isalnum\<close> on one character: on ASCII it holds for the digits and the letters.
  Beyond ASCII it follows Python's Unicode tables, which are not part of the repository:
  the classification of those characters is the parameter \<open>U\<close>.
\<close>

definition ascii_alnum :: "char \<Rightarrow> bool" where
  "ascii_alnum ch = (let n = (of_char ch :: nat) in
     (48 \<le> n \<and> n \<le> 57) \<or> (65 \<le> n \<and> n \<le> 90) \<or> (97 \<le> n \<and> n \<le> 122))"

definition isalnum :: "(char \<Rightarrow> bool) \<Rightarrow> char \<Rightarrow> bool" where
  "isalnum U ch = (if (of_char ch :: nat) < 128 then ascii_alnum ch else U ch)"

definition clean_name :: "(char \<Rightarrow> bool) \<Rightarrow> string \<Rightarrow> string" where
  "clean_name U some_var = filter (isalnum U) some_var"

text \<open>
  One classification of the characters beyond ASCII, for closed statements. Every
  closed statement below is about ASCII strings, where the choice plays no role.
\<close>

definition ascii_only :: "char \<Rightarrow> bool" where
  "ascii_only ch = False"

text \<open>
  The identifier grammar as the specification words it, \<^verbatim>\<open>^[A-Za-z_][A-Za-z0-9_]*$\<close>.
  It is not in the source; it is here to compare \<open>clean_name\<close> with.
\<close>

definition spec_ident_char :: "char \<Rightarrow> bool" where
  "spec_ident_char ch = (ascii_alnum ch \<or> ch = CHR ''_'')"

definition spec_ident_start :: "char \<Rightarrow> bool" where
  "spec_ident_start ch = (spec_ident_char ch \<and> \<not> (48 \<le> (of_char ch :: nat) \<and> (of_char ch :: nat) \<le> 57))"

definition spec_identifier :: "string \<Rightarrow> bool" where
  "spec_identifier s =
     (case s of [] \<Rightarrow> False | ch # rest \<Rightarrow> spec_ident_start ch \<and> list_all spec_ident_char rest)"

subsection \<open>Statement texts\<close>

text \<open>
  Cell 4 builds its INSERT with \<^verbatim>\<open>str.format\<close>, which pastes the three names into the
  text; the row \<^verbatim>\<open>(123456, 'test')\<close> is part of the format string.
  \<^verbatim>\<open>
  c.execute("INSERT INTO {tn} ({idf}, {cn}) VALUES (123456, 'test')".
      format(tn=table_name, idf=id_column, cn=column_name))
  \<close>
\<close>

definition insert_sql :: "string \<Rightarrow> string \<Rightarrow> string \<Rightarrow> string" where
  "insert_sql tn idf cn =
     ''INSERT INTO '' @ tn @ '' ('' @ idf @ '', '' @ cn @ '') VALUES (123456, 'test')''"

text \<open>The row that statement inserts, and the number of \<^verbatim>\<open>?\<close> placeholders of a text.\<close>

definition inserted_values :: "val list" where
  "inserted_values = [IntV 123456, TextV ''test'']"

definition placeholder_count :: "string \<Rightarrow> nat" where
  "placeholder_count sql = count_list sql (CHR ''?'')"

subsection \<open>The database engine\<close>

text \<open>
  Modelled from the spec: the embedded database engine and its driver (Python's
  \<^verbatim>\<open>sqlite3\<close>), which the notebook only calls. The specification's section 6 names
  what it provides: a connection, \<^verbatim>\<open>execute\<close> returning a result set or failing, an
  integrity error for a primary-key conflict, a failure for a table that does not exist.
  The model keeps to the statements the summary functions and cell 4 issue. A statement
  is held by its shape and the names pasted into it; the text the source passes to
  \<^verbatim>\<open>execute\<close> is \<open>sql_text\<close> of it.

  A table is its column descriptors, in ordinal order, and its rows; a row is the list
  of its cells. A column descriptor holds the fields \<^verbatim>\<open>PRAGMA TABLE_INFO\<close> reports
  besides the ordinal (the default as the text of its SQL expression, which is how the
  pragma reports it), and the value that default gives a new row.
\<close>

record column =
  col_name :: string
  col_type :: string
  col_notnull :: int
  col_default :: val
  col_default_value :: val
  col_pk :: int

record table =
  columns :: "column list"
  rows :: "val list list"

type_synonym database = "string \<rightharpoonup> table"

definition cell :: "val list \<Rightarrow> nat \<Rightarrow> val" where
  "cell r j = (if j < length r then r ! j else Null)"

fun col_index :: "string \<Rightarrow> column list \<Rightarrow> nat option" where
  "col_index n [] = None"
| "col_index n (c # cs) = (if col_name c = n then Some 0 else map_option Suc (col_index n cs))"

text \<open>The row \<^verbatim>\<open>(id, name, type, notnull, default_value, primary_key)\<close> of one column.\<close>

definition descriptor :: "nat \<times> column \<Rightarrow> val list" where
  "descriptor ic =
     [IntV (int (fst ic)), TextV (col_name (snd ic)), TextV (col_type (snd ic)),
      IntV (col_notnull (snd ic)), col_default (snd ic), IntV (col_pk (snd ic))]"

definition table_info :: "table \<Rightarrow> val list list" where
  "table_info t = map descriptor (enumerate 0 (columns t))"

text \<open>The rows of a table in which the column at index \<open>j\<close> is not null.\<close>

definition not_null_rows :: "table \<Rightarrow> nat \<Rightarrow> val list list" where
  "not_null_rows t j = filter (\<lambda>r. cell r j \<noteq> Null) (rows t)"

text \<open>
  Inserting a row: a named column gets the value given for it, every other column its
  default. The insert is refused with an integrity error when the table has primary-key
  columns and a row of the table agrees with the new row on all of them.
\<close>

definition new_row :: "column list \<Rightarrow> (string \<times> val) list \<Rightarrow> val list" where
  "new_row cs given =
     map (\<lambda>c. case map_of given (col_name c) of Some v \<Rightarrow> v | None \<Rightarrow> col_default_value c) cs"

definition pk_indices :: "table \<Rightarrow> nat list" where
  "pk_indices t = filter (\<lambda>j. col_pk (columns t ! j) \<noteq> 0) [0..<length (columns t)]"

definition pk_conflict :: "table \<Rightarrow> val list \<Rightarrow> bool" where
  "pk_conflict t r =
     (pk_indices t \<noteq> [] \<and>
      list_ex (\<lambda>r'. list_all (\<lambda>j. cell r' j = cell r j \<and> cell r j \<noteq> Null) (pk_indices t)) (rows t))"

definition insert_row :: "string \<Rightarrow> string list \<Rightarrow> val list \<Rightarrow> database \<Rightarrow> error + database" where
  "insert_row tn cols vals db =
     (case db tn of
        None \<Rightarrow> Inl (NoSuchTable tn)
      | Some t \<Rightarrow>
        (case filter (\<lambda>n. col_index n (columns t) = None) cols of
           n # _ \<Rightarrow> Inl (NoSuchColumn n)
         | [] \<Rightarrow>
           (let r = new_row (columns t) (zip cols vals)
            in if pk_conflict t r then Inl IntegrityError
               else Inr (db(tn \<mapsto> t\<lparr>rows := rows t @ [r]\<rparr>)))))"

text \<open>
  Modelled from the spec: how the engine reads a name that is pasted into a statement
  without quotes, as the source pastes every table and column name. The engine's
  tokenizer and its table of keywords are not in the repository.
  \<^item> A name of the identifier grammar that is no keyword is read as a name; names are
    compared without regard to the case of their ASCII letters.
  \<^item> \<^verbatim>\<open>select\<close>, \<^verbatim>\<open>group\<close> and \<^verbatim>\<open>order\<close> can stand for no name in any of the statements
    of the model: the statement is a syntax error.
  \<^item> \<^verbatim>\<open>null\<close> is the null literal, and a string of digits (up to 18, to stay an
    integer) is a number.
  \<^item> What the engine makes of any other text (other keywords, a text with blanks,
    quotes, operators) is not modelled: the answer to such a statement is \<open>unread\<close> of
    the session's engine, of which nothing is assumed.
\<close>

definition lower_char :: "char \<Rightarrow> char" where
  "lower_char ch =
     (case map_of (zip ''ABCDEFGHIJKLMNOPQRSTUVWXYZ'' ''abcdefghijklmnopqrstuvwxyz'') ch of
        None \<Rightarrow> ch | Some l \<Rightarrow> l)"

definition lower :: "string \<Rightarrow> string" where
  "lower s = map lower_char s"

definition sql_keywords :: "string list" where
  "sql_keywords =
    [''abort'', ''action'', ''add'', ''after'', ''all'', ''alter'', ''always'',
     ''analyze'', ''and'', ''as'', ''asc'', ''attach'', ''autoincrement'', ''before'',
     ''begin'', ''between'', ''by'', ''cascade'', ''case'', ''cast'', ''check'',
     ''collate'', ''column'', ''commit'', ''conflict'', ''constraint'', ''create'',
     ''cross'', ''current'', ''current_date'', ''current_time'', ''current_timestamp'',
     ''database'', ''default'', ''deferrable'', ''deferred'', ''delete'', ''desc'',
     ''detach'', ''distinct'', ''do'', ''drop'', ''each'', ''else'', ''end'', ''escape'',
     ''except'', ''exclude'', ''exclusive'', ''exists'', ''explain'', ''fail'', ''filter'',
     ''first'', ''following'', ''for'', ''foreign'', ''from'', ''full'', ''generated'',
     ''glob'', ''group'', ''groups'', ''having'', ''if'', ''ignore'', ''immediate'',
     ''in'', ''index'', ''indexed'', ''initially'', ''inner'', ''insert'', ''instead'',
     ''intersect'', ''into'', ''is'', ''isnull'', ''join'', ''key'', ''last'', ''left'',
     ''like'', ''limit'', ''match'', ''materialized'', ''natural'', ''no'', ''not'',
     ''nothing'', ''notnull'', ''null'', ''nulls'', ''of'', ''offset'', ''on'', ''or'',
     ''order'', ''others'', ''outer'', ''over'', ''partition'', ''plan'', ''pragma'',
     ''preceding'', ''primary'', ''query'', ''raise'', ''range'', ''recursive'',
     ''references'', ''regexp'', ''reindex'', ''release'', ''rename'', ''replace'',
     ''restrict'', ''returning'', ''right'', ''rollback'', ''row'', ''rows'',
     ''savepoint'', ''select'', ''set'', ''table'', ''temp'', ''temporary'', ''then'',
     ''ties'', ''to'', ''transaction'', ''trigger'', ''unbounded'', ''union'', ''unique'',
     ''update'', ''using'', ''vacuum'', ''values'', ''view'', ''virtual'', ''when'',
     ''where'', ''window'', ''with'', ''within'', ''without'']"

definition reserved_words :: "string list" where
  "reserved_words = [''select'', ''group'', ''order'']"

definition plain_name :: "string \<Rightarrow> bool" where
  "plain_name n = (spec_identifier n \<and> lower n \<notin> set sql_keywords)"

definition is_digit :: "char \<Rightarrow> bool" where
  "is_digit ch = (48 \<le> (of_char ch :: nat) \<and> (of_char ch :: nat) \<le> 57)"

definition leading_int :: "string \<Rightarrow> int" where
  "leading_int s = int (fold (\<lambda>ch n. 10 * n + (of_char ch - 48)) (takeWhile is_digit s) 0)"

datatype reading = Name | Reserved | NullWord | Number int | Other

definition read_name :: "string \<Rightarrow> reading" where
  "read_name n =
     (if plain_name n then Name
      else if lower n \<in> set reserved_words then Reserved
      else if lower n = ''null'' then NullWord
      else if n \<noteq> [] \<and> list_all is_digit n \<and> length n \<le> 18 then Number (leading_int n)
      else Other)"

text \<open>
  Finding a table. A database holds a table under its name in lower case. The table held
  under the very name that is pasted is taken as found (which is so for a plain name;
  the properties of what the summary returns ask for one). Otherwise a name is looked up
  in lower case. The engine has tables of its own (its schema tables, its pragmas as
  tables, other built-in table-valued functions), which differ from one build of the
  engine to another: which names are theirs is the argument \<open>own\<close>, and what the engine
  answers for them is not modelled.
\<close>

datatype 'a found = Found 'a | Missing | Refused | NotRead

definition find_table :: "(string \<Rightarrow> bool) \<Rightarrow> database \<Rightarrow> string \<Rightarrow> table found" where
  "find_table own db tn =
     (case db tn of
        Some t \<Rightarrow> Found t
      | None \<Rightarrow>
        (case read_name tn of
           Name \<Rightarrow>
             (case db (lower tn) of
                Some t \<Rightarrow> Found t
              | None \<Rightarrow> if own (lower tn) then NotRead else Missing)
         | Reserved \<Rightarrow> Refused
         | _ \<Rightarrow> NotRead))"

text \<open>
  Finding a column by a name: the first column of that name, case set aside. A name
  that no column has is an error, unless the engine gives it a meaning of its own (the
  row id by its three names, the two truth values), which is not modelled.
\<close>

fun find_column :: "string \<Rightarrow> column list \<Rightarrow> nat option" where
  "find_column n [] = None"
| "find_column n (c # cs) =
     (if lower (col_name c) = lower n then Some 0 else map_option Suc (find_column n cs))"

definition engine_column :: "string \<Rightarrow> bool" where
  "engine_column n = (n \<in> set [''rowid'', ''oid'', ''_rowid_'', ''true'', ''false''])"

text \<open>The statements the notebook's functions issue, and the text of each in the source.\<close>

datatype stmt =
    CountRows string
  | TableInfo string
  | SelectNotNull string string
  | InsertRow string string string

fun sql_text :: "stmt \<Rightarrow> string" where
  "sql_text (CountRows tn) = ''SELECT COUNT(*) FROM '' @ tn"
| "sql_text (TableInfo tn) = ''PRAGMA TABLE_INFO('' @ tn @ '')''"
| "sql_text (SelectNotNull col tn) =
     ''SELECT ('' @ col @ '') FROM '' @ tn @ '' WHERE '' @ col @ '' IS NOT NULL''"
| "sql_text (InsertRow tn idf cn) = insert_sql tn idf cn"

definition select_or_pragma :: "stmt \<Rightarrow> bool" where
  "select_or_pragma q = (prefix ''SELECT '' (sql_text q) \<or> prefix ''PRAGMA '' (sql_text q))"

text \<open>
  What the model takes from the engine as it finds it: \<open>unread\<close>, the answer (a result
  set or an error) to a statement with a name the model does not read, and \<open>own_table\<close>,
  the names of the engine's own tables.
\<close>

record engine =
  unread :: "stmt \<Rightarrow> database \<Rightarrow> error + val list list"
  own_table :: "string \<Rightarrow> bool"

text \<open>
  What the engine answers: the result set and the database after the statement.
  A SELECT or PRAGMA leaves the database as it is, whatever its names.
  \<^verbatim>\<open>PRAGMA TABLE_INFO\<close> of a table that does not exist has no rows (and is no error);
  the two SELECTs fail for such a table. \<^verbatim>\<open>SELECT (123) FROM t WHERE 123 IS NOT NULL\<close>
  has a row for every row of the table, and with \<^verbatim>\<open>null\<close> for \<^verbatim>\<open>123\<close> it has none.
  The INSERT of cell 4 is modelled for names that are written as the database holds them.
\<close>

definition answered ::
  "engine \<Rightarrow> stmt \<Rightarrow> database \<Rightarrow> error + (val list list \<times> database)" where
  "answered E q db = (case unread E q db of Inl e \<Rightarrow> Inl e | Inr rs \<Rightarrow> Inr (rs, db))"

fun run_stmt :: "engine \<Rightarrow> stmt \<Rightarrow> database \<Rightarrow> error + (val list list \<times> database)" where
  "run_stmt E (CountRows tn) db =
     (case find_table (own_table E) db tn of
        Found t \<Rightarrow> Inr ([[IntV (int (length (rows t)))]], db)
      | Missing \<Rightarrow> Inl (NoSuchTable tn)
      | Refused \<Rightarrow> Inl SyntaxError
      | NotRead \<Rightarrow> answered E (CountRows tn) db)"
| "run_stmt E (TableInfo tn) db =
     (case find_table (own_table E) db tn of
        Found t \<Rightarrow> Inr (table_info t, db)
      | Missing \<Rightarrow> Inr ([], db)
      | Refused \<Rightarrow> Inl SyntaxError
      | NotRead \<Rightarrow> answered E (TableInfo tn) db)"
| "run_stmt E (SelectNotNull col tn) db =
     (case find_table (own_table E) db tn of
        Found t \<Rightarrow>
          (case read_name col of
             Name \<Rightarrow>
               (case find_column col (columns t) of
                  Some j \<Rightarrow> Inr (map (\<lambda>r. [cell r j]) (not_null_rows t j), db)
                | None \<Rightarrow>
                    if engine_column (lower col) then answered E (SelectNotNull col tn) db
                    else Inl (NoSuchColumn col))
           | Reserved \<Rightarrow> Inl SyntaxError
           | NullWord \<Rightarrow> Inr ([], db)
           | Number v \<Rightarrow> Inr (map (\<lambda>r. [IntV v]) (rows t), db)
           | Other \<Rightarrow> answered E (SelectNotNull col tn) db)
      | Missing \<Rightarrow>
          (case read_name col of
             Reserved \<Rightarrow> Inl SyntaxError
           | Other \<Rightarrow> answered E (SelectNotNull col tn) db
           | _ \<Rightarrow> Inl (NoSuchTable tn))
      | Refused \<Rightarrow> Inl SyntaxError
      | NotRead \<Rightarrow> answered E (SelectNotNull col tn) db)"
| "run_stmt E (InsertRow tn idf cn) db =
     (case insert_row tn [idf, cn] inserted_values db of
        Inl e \<Rightarrow> Inl e
      | Inr db' \<Rightarrow> Inr ([], db'))"

subsection \<open>Connections and cursors\<close>

text \<open>
  Modelled from the spec: the driver's connection and cursor objects (Python's
  \<^verbatim>\<open>sqlite3\<close>; the specification's section 6 has them as \<^verbatim>\<open>openConnection\<close>,
  \<^verbatim>\<open>closeConnection\<close> and \<^verbatim>\<open>execute\<close>).
  Every cell opens one connection and takes one cursor from it
  (\<^verbatim>\<open>conn = sqlite3.connect(sqlite_file); c = conn.cursor()\<close>, and \<^verbatim>\<open>connect\<close> of the
  summary section returns the pair), so the pair is one \<open>session\<close>, known by a handle.
  A session holds the database as committed to the file, the database as the connection
  sees it (with the changes not yet committed), the result set the cursor has not yet
  handed out, whether the connection is open, the engine behind it, and (for the
  properties only) the statements the engine was given. The store \<open>world\<close> maps handles to sessions: two
  names for one cursor are one handle.
\<close>

record session =
  committed :: database
  working :: database
  fetched :: "val list list"
  history :: "stmt list"
  is_open :: bool
  engine :: engine

type_synonym world = "nat \<rightharpoonup> session"

text \<open>\<^verbatim>\<open>cursor.execute(sql)\<close>, \<^verbatim>\<open>cursor.fetchall()\<close>, \<^verbatim>\<open>conn.commit()\<close>, \<^verbatim>\<open>conn.close()\<close>.\<close>

definition execute :: "nat \<Rightarrow> stmt \<Rightarrow> world \<Rightarrow> (error + unit) \<times> world" where
  "execute h q w =
     (case w h of
        None \<Rightarrow> (Inl ProgrammingError, w)
      | Some s \<Rightarrow>
        if \<not> is_open s then (Inl ProgrammingError, w)
        else (case run_stmt (engine s) q (working s) of
                Inl e \<Rightarrow> (Inl e, w(h \<mapsto> s\<lparr>history := history s @ [q]\<rparr>))
              | Inr (rs, db') \<Rightarrow>
                (Inr (), w(h \<mapsto> s\<lparr>working := db', fetched := rs, history := history s @ [q]\<rparr>))))"

definition fetchall :: "nat \<Rightarrow> world \<Rightarrow> (error + val list list) \<times> world" where
  "fetchall h w =
     (case w h of
        None \<Rightarrow> (Inl ProgrammingError, w)
      | Some s \<Rightarrow>
        if \<not> is_open s then (Inl ProgrammingError, w)
        else (Inr (fetched s), w(h \<mapsto> s\<lparr>fetched := []\<rparr>)))"

definition commit :: "nat \<Rightarrow> world \<Rightarrow> (error + unit) \<times> world" where
  "commit h w =
     (case w h of
        None \<Rightarrow> (Inl ProgrammingError, w)
      | Some s \<Rightarrow>
        if \<not> is_open s then (Inl ProgrammingError, w)
        else (Inr (), w(h \<mapsto> s\<lparr>committed := working s\<rparr>)))"

text \<open>
  Closing does not commit: what the connection changed since its last commit is rolled
  back, and the file keeps the committed database.
\<close>

definition conn_close :: "nat \<Rightarrow> world \<Rightarrow> world" where
  "conn_close h w =
     (case w h of
        None \<Rightarrow> w
      | Some s \<Rightarrow> w(h \<mapsto> s\<lparr>working := committed s, fetched := [], is_open := False\<rparr>))"

subsection \<open>The summary functions\<close>

text \<open>Python's \<^verbatim>\<open>xs[i]\<close> for an index that is not negative, and \<^verbatim>\<open>str(v)\<close> of a cell value.\<close>

definition index :: "'a list \<Rightarrow> nat \<Rightarrow> error + 'a" where
  "index xs i = (if i < length xs then Inr (xs ! i) else Inl IndexError)"

fun digit_chars :: "nat \<Rightarrow> string" where
  "digit_chars n =
     (if n < 10 then [''0123456789'' ! n]
      else digit_chars (n div 10) @ [''0123456789'' ! (n mod 10)])"

declare digit_chars.simps [simp del]

fun py_str :: "val \<Rightarrow> string" where
  "py_str Null = ''None''"
| "py_str (IntV i) = (if i < 0 then ''-'' @ digit_chars (nat (- i)) else digit_chars (nat i))"
| "py_str (TextV s) = s"

text \<open>
  A Python \<^verbatim>\<open>dict\<close> keeps its keys in the order of their first insertion; assigning to a
  key it has replaces the value in place.
\<close>

fun dict_set :: "'k \<Rightarrow> 'v \<Rightarrow> ('k \<times> 'v) list \<Rightarrow> ('k \<times> 'v) list" where
  "dict_set k v [] = [(k, v)]"
| "dict_set k v ((k', v') # d) = (if k' = k then (k', v) # d else (k', v') # dict_set k v d)"

text \<open>
  \<^verbatim>\<open>
  def close(conn):
      """ Commit changes and close connection to the database """
      # conn.commit()
      conn.close()
  \<close>
\<close>

definition close :: "nat \<Rightarrow> world \<Rightarrow> world" where
  "close conn w = conn_close conn w"

text \<open>
  \<^verbatim>\<open>
  def total_rows(cursor, table_name, print_out=False):
      cursor.execute('SELECT COUNT(*) FROM {}'.format(table_name))
      count = cursor.fetchall()
      if print_out:
          print('\nTotal rows: {}'.format(count[0][0]))
      return count[0][0]
  \<close>
  The flag \<^verbatim>\<open>print_out\<close> of the three functions only selects whether the result is
  printed as well; standard output is not part of the model.
\<close>

definition total_rows :: "nat \<Rightarrow> string \<Rightarrow> world \<Rightarrow> (error + val) \<times> world" where
  "total_rows cursor table_name w =
     (case execute cursor (CountRows table_name) w of
        (Inl e, w1) \<Rightarrow> (Inl e, w1)
      | (Inr _, w1) \<Rightarrow>
        (case fetchall cursor w1 of
           (Inl e, w2) \<Rightarrow> (Inl e, w2)
         | (Inr count, w2) \<Rightarrow>
           (case index count 0 of
              Inl e \<Rightarrow> (Inl e, w2)
            | Inr row \<Rightarrow>
              (case index row 0 of
                 Inl e \<Rightarrow> (Inl e, w2)
               | Inr v \<Rightarrow> (Inr v, w2)))))"

text \<open>
  \<^verbatim>\<open>
  def table_col_info(cursor, table_name, print_out=False):
      cursor.execute('PRAGMA TABLE_INFO({})'.format(table_name))
      info = cursor.fetchall()
      ...
      return info
  \<close>
\<close>

definition table_col_info :: "nat \<Rightarrow> string \<Rightarrow> world \<Rightarrow> (error + val list list) \<times> world" where
  "table_col_info cursor table_name w =
     (case execute cursor (TableInfo table_name) w of
        (Inl e, w1) \<Rightarrow> (Inl e, w1)
      | (Inr _, w1) \<Rightarrow> fetchall cursor w1)"

text \<open>
  \<^verbatim>\<open>
  def values_in_col(cursor, table_name, print_out=True):
      cursor.execute('PRAGMA TABLE_INFO({})'.format(table_name))
      info = cursor.fetchall()
      col_dict = dict()
      for col in info:
          col_dict[col[1]] = 0
      for col in col_dict:
          c.execute('SELECT ({0}) FROM {1} '
                    'WHERE {0} IS NOT NULL'.format(col, table_name))
          number_rows = len(c.fetchall())
          col_dict[col] = number_rows
      ...
      return col_dict
  \<close>
  The second loop does not use the parameter \<^verbatim>\<open>cursor\<close> but the name \<^verbatim>\<open>c\<close>, which is
  not a local of the function: it is the module-level \<^verbatim>\<open>c\<close>. The model takes the
  binding of that name as the argument \<open>c_global\<close>: \<open>None\<close> when the name is not bound,
  the handle of the cursor it is bound to otherwise.
\<close>

fun zero_counts :: "val list list \<Rightarrow> (val \<times> int) list \<Rightarrow> error + (val \<times> int) list" where
  "zero_counts [] col_dict = Inr col_dict"
| "zero_counts (col # info) col_dict =
     (case index col 1 of
        Inl e \<Rightarrow> Inl e
      | Inr name \<Rightarrow> zero_counts info (dict_set name 0 col_dict))"

fun count_loop ::
  "nat option \<Rightarrow> string \<Rightarrow> val list \<Rightarrow> (val \<times> int) list \<Rightarrow> world
     \<Rightarrow> (error + (val \<times> int) list) \<times> world" where
  "count_loop c_global table_name [] col_dict w = (Inr col_dict, w)"
| "count_loop c_global table_name (col # cols) col_dict w =
     (case c_global of
        None \<Rightarrow> (Inl NameError, w)
      | Some c \<Rightarrow>
        (case execute c (SelectNotNull (py_str col) table_name) w of
           (Inl e, w1) \<Rightarrow> (Inl e, w1)
         | (Inr _, w1) \<Rightarrow>
           (case fetchall c w1 of
              (Inl e, w2) \<Rightarrow> (Inl e, w2)
            | (Inr rs, w2) \<Rightarrow>
              count_loop c_global table_name cols (dict_set col (int (length rs)) col_dict) w2)))"

definition values_in_col ::
  "nat option \<Rightarrow> nat \<Rightarrow> string \<Rightarrow> world \<Rightarrow> (error + (val \<times> int) list) \<times> world" where
  "values_in_col c_global cursor table_name w =
     (case execute cursor (TableInfo table_name) w of
        (Inl e, w1) \<Rightarrow> (Inl e, w1)
      | (Inr _, w1) \<Rightarrow>
        (case fetchall cursor w1 of
           (Inl e, w2) \<Rightarrow> (Inl e, w2)
         | (Inr info, w2) \<Rightarrow>
           (case zero_counts info [] of
              Inl e \<Rightarrow> (Inl e, w2)
            | Inr col_dict \<Rightarrow> count_loop c_global table_name (map fst col_dict) col_dict w2)))"

text \<open>
  The main block binds the module-level \<^verbatim>\<open>c\<close> to the cursor it passes on, and calls
  the three functions in a row; this is what the specification calls \<^verbatim>\<open>summarize\<close>.
  \<^verbatim>\<open>
  conn, c = connect(sqlite_file)
  total_rows(c, table_name, print_out=True)
  table_col_info(c, table_name, print_out=True)
  values_in_col(c, table_name, print_out=True)
  \<close>
  The model returns the three results, which the main block prints.
\<close>

definition main_summary ::
  "nat \<Rightarrow> string \<Rightarrow> world
     \<Rightarrow> (error + val \<times> val list list \<times> (val \<times> int) list) \<times> world" where
  "main_summary c table_name w =
     (case total_rows c table_name w of
        (Inl e, w1) \<Rightarrow> (Inl e, w1)
      | (Inr n, w1) \<Rightarrow>
        (case table_col_info c table_name w1 of
           (Inl e, w2) \<Rightarrow> (Inl e, w2)
         | (Inr info, w2) \<Rightarrow>
           (case values_in_col (Some c) c table_name w2 of
              (Inl e, w3) \<Rightarrow> (Inl e, w3)
            | (Inr col_dict, w3) \<Rightarrow> (Inr (n, info, col_dict), w3))))"

subsection \<open>The insert of cell 4\<close>

text \<open>
  \<^verbatim>\<open>
  try:
      c.execute("INSERT INTO {tn} ({idf}, {cn}) VALUES (123456, 'test')".
          format(tn=table_name, idf=id_column, cn=column_name))
  except sqlite3.IntegrityError:
      print('ERROR: ID already exists in PRIMARY KEY column {}'.format(id_column))
  \<close>
  The result is what the step prints: \<open>Some\<close> of the message when the integrity error
  was caught, \<open>None\<close> when the insert went through. Any other exception leaves the cell.
\<close>

definition insert_or_report ::
  "nat \<Rightarrow> string \<Rightarrow> string \<Rightarrow> string \<Rightarrow> world \<Rightarrow> (error + string option) \<times> world" where
  "insert_or_report c tn idf cn w =
     (case execute c (InsertRow tn idf cn) w of
        (Inl IntegrityError, w1) \<Rightarrow>
          (Inr (Some (''ERROR: ID already exists in PRIMARY KEY column '' @ idf)), w1)
      | (Inl e, w1) \<Rightarrow> (Inl e, w1)
      | (Inr _, w1) \<Rightarrow> (Inr None, w1))"

subsection \<open>Example databases\<close>

text \<open>
  \<^verbatim>\<open>my_table_3\<close> as cell 7 leaves it and as the printed output of the summary cell shows
  it, and \<^verbatim>\<open>my_table_2\<close> of cells 1 to 5 with the row of cell 4.
\<close>

definition plain_column :: "string \<Rightarrow> column" where
  "plain_column n = \<lparr>col_name = n, col_type = [], col_notnull = 0, col_default = Null, col_default_value = Null, col_pk = 0\<rparr>"

definition my_table_3 :: table where
  "my_table_3 =
     \<lparr>columns = [\<lparr>col_name = ''id'', col_type = ''TEXT'', col_notnull = 0, col_default = Null, col_default_value = Null, col_pk = 1\<rparr>,
                 plain_column ''date'', plain_column ''time'', plain_column ''date_time''],
      rows = [[TextV ''some_id1'', TextV ''2014-03-06'', TextV ''16:42:30'',
               TextV ''2014-03-06 16:42:30'']]\<rparr>"

definition my_table_2 :: table where
  "my_table_2 =
     \<lparr>columns = [\<lparr>col_name = ''my_1st_column'', col_type = ''INTEGER'', col_notnull = 0,
                   col_default = Null, col_default_value = Null, col_pk = 1\<rparr>,
                 \<lparr>col_name = ''my_2nd_column'', col_type = ''TEXT'', col_notnull = 0,
                   col_default = Null, col_default_value = Null, col_pk = 0\<rparr>,
                 \<lparr>col_name = ''my_3rd_column'', col_type = ''TEXT'', col_notnull = 0,
                   col_default = TextV (CHR 0x27 # ''Hello World'' @ [CHR 0x27]),
                   col_default_value = TextV ''Hello World'',
                   col_pk = 0\<rparr>],
      rows = [[IntV 123456, TextV ''test'', TextV ''Hello World'']]\<rparr>"

definition my_first_db :: database where
  "my_first_db = [''my_table_2'' \<mapsto> my_table_2, ''my_table_3'' \<mapsto> my_table_3]"

text \<open>
  A session just opened on a database, with one engine for the closed statements below:
  its \<open>unread\<close> has one answer to everything (no closed statement below issues a
  statement that asks for it), and its own tables are the ones of these names.
\<close>

definition no_answer :: "stmt \<Rightarrow> database \<Rightarrow> error + val list list" where
  "no_answer q db = Inl SyntaxError"

definition engine_table :: "string \<Rightarrow> bool" where
  "engine_table n =
     (prefix ''sqlite_'' n \<or> prefix ''pragma_'' n \<or> n \<in> set [''json_each'', ''json_tree''])"

definition an_engine :: engine where
  "an_engine = \<lparr>unread = no_answer, own_table = engine_table\<rparr>"

definition fresh_session :: "database \<Rightarrow> session" where
  "fresh_session db =
     \<lparr>committed = db, working = db, fetched = [], history = [], is_open = True,
      engine = an_engine\<rparr>"

text \<open>The table of the specification's scenario B, holding the row of its first insert.\<close>

definition students :: table where
  "students =
     \<lparr>columns = [\<lparr>col_name = ''id'', col_type = ''INTEGER'', col_notnull = 0,
                   col_default = Null, col_default_value = Null, col_pk = 1\<rparr>,
                 \<lparr>col_name = ''name'', col_type = ''TEXT'', col_notnull = 0,
                   col_default = Null, col_default_value = Null, col_pk = 0\<rparr>],
      rows = [[IntV 1, TextV ''Alice'']]\<rparr>"

text \<open>
  Two sessions: the notebook's database, and a second database whose \<^verbatim>\<open>my_table_3\<close> has
  the same columns and no row.
\<close>

definition other_db :: database where
  "other_db = [''my_table_3'' \<mapsto> my_table_3\<lparr>rows := []\<rparr>]"

definition two_sessions :: world where
  "two_sessions = [0 \<mapsto> fresh_session my_first_db, 1 \<mapsto> fresh_session other_db]"



text \<open>A session after the insert of cell 4 into the empty \<^verbatim>\<open>my_table_2\<close>, before any commit.\<close>

definition pending_insert :: world where
  "pending_insert =
     snd (insert_or_report 0 ''my_table_2'' ''my_1st_column'' ''my_2nd_column''
            [0 \<mapsto> fresh_session [''my_table_2'' \<mapsto> my_table_2\<lparr>rows := []\<rparr>]])"

subsection \<open>The age query of cell 7\<close>

text \<open>
  \<^verbatim>\<open>
  # 5) Retrieve all IDs of entries between that are older than 1 day and 12 hrs
  c.execute("SELECT {idf} FROM {tn} WHERE DATE('now') - {dc} >= 1 AND DATE('now') - {tc} >= 12".
      format(idf=id_field, tn=table_name, dc=date_col, tc=time_col))
  \<close>
\<close>

text \<open>
  Modelled from the spec: the engine's \<^verbatim>\<open>DATE('now')\<close> and \<^verbatim>\<open>TIME('now')\<close> (section 6), and
  its arithmetic on text, of which the specification only says that subtracting such
  strings is not meaningful. The model takes the engine's rule for a text operand of an
  arithmetic operator: it counts as the number that its leading digits spell, and as 0
  when it starts with none. (Signs, fractions and exponents are left out: the texts
  \<^verbatim>\<open>YYYY-MM-DD\<close> and \<^verbatim>\<open>HH:MM:SS\<close> have none.) The clock is the argument \<open>now\<close>.
\<close>

record timestamp =
  ts_year :: nat
  ts_month :: nat
  ts_day :: nat
  ts_hour :: nat
  ts_minute :: nat
  ts_second :: nat

definition zero_pad :: "nat \<Rightarrow> nat \<Rightarrow> string" where
  "zero_pad width n = replicate (width - length (digit_chars n)) (CHR ''0'') @ digit_chars n"

definition sql_date :: "timestamp \<Rightarrow> string" where
  "sql_date ts =
     zero_pad 4 (ts_year ts) @ ''-'' @ zero_pad 2 (ts_month ts) @ ''-'' @ zero_pad 2 (ts_day ts)"

definition sql_time :: "timestamp \<Rightarrow> string" where
  "sql_time ts =
     zero_pad 2 (ts_hour ts) @ '':'' @ zero_pad 2 (ts_minute ts) @ '':'' @ zero_pad 2 (ts_second ts)"

fun sql_numeric :: "val \<Rightarrow> int option" where
  "sql_numeric Null = None"
| "sql_numeric (IntV i) = Some i"
| "sql_numeric (TextV s) = Some (leading_int s)"

definition sql_minus :: "val \<Rightarrow> val \<Rightarrow> val" where
  "sql_minus a b =
     (case (sql_numeric a, sql_numeric b) of (Some x, Some y) \<Rightarrow> IntV (x - y) | _ \<Rightarrow> Null)"

text \<open>\<^verbatim>\<open>>=\<close> between the result of a subtraction and an integer literal.\<close>

definition sql_ge :: "val \<Rightarrow> val \<Rightarrow> val" where
  "sql_ge a b =
     (case (sql_numeric a, sql_numeric b) of
        (Some x, Some y) \<Rightarrow> IntV (if y \<le> x then 1 else 0) | _ \<Rightarrow> Null)"

fun sql_and :: "val \<Rightarrow> val \<Rightarrow> val" where
  "sql_and (IntV x) (IntV y) = IntV (if x \<noteq> 0 \<and> y \<noteq> 0 then 1 else 0)"
| "sql_and (IntV x) b = (if x = 0 then IntV 0 else Null)"
| "sql_and a (IntV y) = (if y = 0 then IntV 0 else Null)"
| "sql_and a b = Null"

text \<open>A row is selected when the condition is true: neither 0 nor null.\<close>

fun sql_true :: "val \<Rightarrow> bool" where
  "sql_true (IntV x) = (x \<noteq> 0)"
| "sql_true v = False"

definition older_condition :: "timestamp \<Rightarrow> val \<Rightarrow> val \<Rightarrow> val" where
  "older_condition now d t =
     sql_and (sql_ge (sql_minus (TextV (sql_date now)) d) (IntV 1))
             (sql_ge (sql_minus (TextV (sql_date now)) t) (IntV 12))"

definition older_entries ::
  "timestamp \<Rightarrow> string \<Rightarrow> string \<Rightarrow> string \<Rightarrow> string \<Rightarrow> database \<Rightarrow> error + val list list" where
  "older_entries now idf tn dc tc db =
     (case db tn of
        None \<Rightarrow> Inl (NoSuchTable tn)
      | Some t \<Rightarrow>
        (case col_index idf (columns t) of
           None \<Rightarrow> Inl (NoSuchColumn idf)
         | Some i \<Rightarrow>
           (case col_index dc (columns t) of
              None \<Rightarrow> Inl (NoSuchColumn dc)
            | Some j \<Rightarrow>
              (case col_index tc (columns t) of
                 None \<Rightarrow> Inl (NoSuchColumn tc)
               | Some k \<Rightarrow>
                 Inr (map (\<lambda>r. [cell r i])
                        (filter (\<lambda>r. sql_true (older_condition now (cell r j) (cell r k)))
                           (rows t)))))))"

text \<open>
  The row cell 7 writes at the time \<open>ts\<close>: the id, \<^verbatim>\<open>DATE('now')\<close>, \<^verbatim>\<open>TIME('now')\<close> and
  \<^verbatim>\<open>CURRENT_TIMESTAMP\<close>.
\<close>

definition entry_row :: "string \<Rightarrow> timestamp \<Rightarrow> val list" where
  "entry_row ident ts =
     [TextV ident, TextV (sql_date ts), TextV (sql_time ts),
      TextV (sql_date ts @ '' '' @ sql_time ts)]"

text \<open>
  The filter the comment of the cell words, "older than 1 day and 12 hrs": more than 36
  hours lie between the time of the entry and now. Days are counted in the Gregorian
  calendar.
\<close>

definition leap_year :: "nat \<Rightarrow> bool" where
  "leap_year y = (y mod 4 = 0 \<and> (y mod 100 \<noteq> 0 \<or> y mod 400 = 0))"

definition month_lengths :: "nat \<Rightarrow> nat list" where
  "month_lengths y = [31, if leap_year y then 29 else 28, 31, 30, 31, 30, 31, 31, 30, 31, 30, 31]"

definition day_number :: "timestamp \<Rightarrow> int" where
  "day_number ts =
     (let y = int (ts_year ts) - 1
      in 365 * y + y div 4 - y div 100 + y div 400
         + int (sum_list (take (ts_month ts - 1) (month_lengths (ts_year ts))))
         + int (ts_day ts))"

definition seconds_of :: "timestamp \<Rightarrow> int" where
  "seconds_of ts =
     86400 * day_number ts + 3600 * int (ts_hour ts) + 60 * int (ts_minute ts)
     + int (ts_second ts)"

definition older_than_1day_12hrs :: "timestamp \<Rightarrow> timestamp \<Rightarrow> bool" where
  "older_than_1day_12hrs now entered = (seconds_of now - seconds_of entered > 36 * 3600)"

definition march_1st :: timestamp where
  "march_1st =
     \<lparr>ts_year = 2014, ts_month = 3, ts_day = 1, ts_hour = 10, ts_minute = 0, ts_second = 0\<rparr>"

definition march_6th :: timestamp where
  "march_6th =
     \<lparr>ts_year = 2014, ts_month = 3, ts_day = 6, ts_hour = 16, ts_minute = 42, ts_second = 30\<rparr>"

subsection \<open>Notions the properties are stated with\<close>





text \<open>
  \<open>issued h qs w w'\<close>: from \<open>w\<close> to \<open>w'\<close> the session \<open>h\<close> was given the statements
  \<open>qs\<close>; its committed database, its working database and its being open are as before,
  and so is every other session.
\<close>

definition issued :: "nat \<Rightarrow> stmt list \<Rightarrow> world \<Rightarrow> world \<Rightarrow> bool" where
  "issued h qs w w' =
     (\<exists>s s'. w h = Some s \<and> w' = w(h \<mapsto> s') \<and> committed s' = committed s
        \<and> working s' = working s \<and> is_open s' = is_open s \<and> history s' = history s @ qs)"





section \<open>Properties\<close>

subsection \<open>\<^verbatim>\<open>clean_name\<close>\<close>

lemma ascii_alnum_below_128: "ascii_alnum ch \<Longrightarrow> (of_char ch :: nat) < 128"
  by (simp add: ascii_alnum_def Let_def) arith

lemma isalnum_ascii: "ascii_alnum ch \<Longrightarrow> isalnum U ch"
  by (simp add: isalnum_def ascii_alnum_below_128)

lemma underscore_not_isalnum: "\<not> isalnum U (CHR ''_'')"
  by (simp add: isalnum_def ascii_alnum_def)

lemma filter_id_iff: "filter P xs = xs \<longleftrightarrow> list_all P xs"
  by (simp add: filter_id_conv list_all_iff)

lemma spec_ident_char_isalnum:
  "spec_ident_char ch \<Longrightarrow> isalnum U ch \<longleftrightarrow> ch \<noteq> CHR ''_''"
  using isalnum_ascii [of ch U] underscore_not_isalnum [of U]
  by (auto simp: spec_ident_char_def)

lemma spec_identifier_chars: "spec_identifier s \<Longrightarrow> list_all spec_ident_char s"
  by (cases s) (simp_all add: spec_identifier_def spec_ident_start_def)

lemma spec_identifier_alnum_iff:
  assumes "spec_identifier s"
  shows "list_all (isalnum U) s \<longleftrightarrow> CHR ''_'' \<notin> set s"
proof -
  have chars: "\<forall>ch \<in> set s. spec_ident_char ch"
    using spec_identifier_chars [OF assms] by (simp add: list_all_iff)
  show ?thesis
  proof
    assume "list_all (isalnum U) s"
    then show "CHR ''_'' \<notin> set s"
      using underscore_not_isalnum [of U] by (auto simp: list_all_iff)
  next
    assume "CHR ''_'' \<notin> set s"
    then have "\<forall>ch \<in> set s. isalnum U ch"
      using chars spec_ident_char_isalnum [of _ U] by blast
    then show "list_all (isalnum U) s" by (simp add: list_all_iff)
  qed
qed

text \<open>
  C1 (as the code has it). \<open>clean_name\<close> never fails: it returns its argument with
  every character that is not alphanumeric removed, the others kept in order. So its
  result is the argument exactly when every character is alphanumeric; for a string of
  the identifier grammar, exactly when the string has no underscore.
\<close>

theorem clean_name_removes_non_alnum:
  "subseq (clean_name U s) s
   \<and> list_all (isalnum U) (clean_name U s)
   \<and> (\<forall>ch. isalnum U ch \<longrightarrow> count_list (clean_name U s) ch = count_list s ch)
   \<and> (clean_name U s = s \<longleftrightarrow> list_all (isalnum U) s)
   \<and> (spec_identifier s \<longrightarrow> (clean_name U s = s \<longleftrightarrow> CHR ''_'' \<notin> set s))"
proof -
  have a: "subseq (clean_name U s) s"
    by (simp add: clean_name_def)
  have b: "list_all (isalnum U) (clean_name U s)"
    by (simp add: clean_name_def list_all_iff)
  have c: "\<forall>ch. isalnum U ch \<longrightarrow> count_list (clean_name U s) ch = count_list s ch"
    by (induction s) (simp_all add: clean_name_def)
  have d: "clean_name U s = s \<longleftrightarrow> list_all (isalnum U) s"
    by (simp add: clean_name_def filter_id_iff)
  have e: "spec_identifier s \<longrightarrow> (clean_name U s = s \<longleftrightarrow> CHR ''_'' \<notin> set s)"
    using d spec_identifier_alnum_iff [of s U] by simp
  from a b c d e show ?thesis by blast
qed

text \<open>
  At \<^verbatim>\<open>names\<close>, an identifier without underscore that comes back as it is, and at
  \<^verbatim>\<open>my_table_2\<close>, whose one \<^verbatim>\<open>m\<close> is kept.
\<close>

theorem clean_name_removes_non_alnum_witness:
  "spec_identifier ''names'' \<and> clean_name ascii_only ''names'' = ''names''
   \<and> isalnum ascii_only (CHR ''m'')
   \<and> count_list (clean_name ascii_only ''my_table_2'') (CHR ''m'') = 1"
  using clean_name_removes_non_alnum [of ascii_only "''names''"]
    clean_name_removes_non_alnum [of ascii_only "''my_table_2''"]
  by (simp add: spec_identifier_def spec_ident_start_def spec_ident_char_def
      ascii_alnum_def isalnum_def)

text \<open>
  C1 (as the specification states it) fails on the code: the notebook's own table name
  \<^verbatim>\<open>my_table_2\<close> is of the identifier grammar and comes back without its underscores,
  and the injection string of scenario C is not rejected but comes back altered.
\<close>

theorem clean_name_alters_identifier:
  "spec_identifier ''my_table_2''
   \<and> clean_name ascii_only ''my_table_2'' = ''mytable2''
   \<and> \<not> spec_identifier ''robert'); DROP TABLE students;--''
   \<and> clean_name ascii_only ''robert'); DROP TABLE students;--'' = ''robertDROPTABLEstudents''
   \<and> clean_name ascii_only [] = []"
  by (simp add: spec_identifier_def spec_ident_start_def spec_ident_char_def
      ascii_alnum_def isalnum_def clean_name_def)

subsection \<open>Statement texts\<close>

lemma placeholder_count_append:
  "placeholder_count (xs @ ys) = placeholder_count xs + placeholder_count ys"
  by (induction xs) (simp_all add: placeholder_count_def)
text \<open>
  C2 (as the code has it). The INSERT text of cell 4 is the fixed skeleton with the
  three names pasted in, in this order, and the literal row \<^verbatim>\<open>(123456, 'test')\<close> at its
  end, whatever the names are; it has exactly the question marks that the names bring:
  none for names without one.
\<close>

theorem insert_sql_literal_row:
  "insert_sql tn idf cn
     = ''INSERT INTO '' @ tn @ '' ('' @ idf @ '', '' @ cn @ '') VALUES (123456, 'test')''
   \<and> suffix ''VALUES (123456, 'test')'' (insert_sql tn idf cn)
   \<and> placeholder_count (insert_sql tn idf cn)
       = placeholder_count tn + placeholder_count idf + placeholder_count cn"
proof -
  have t: "insert_sql tn idf cn
      = ''INSERT INTO '' @ tn @ '' ('' @ idf @ '', '' @ cn @ '') VALUES (123456, 'test')''"
    by (simp add: insert_sql_def)
  have "insert_sql tn idf cn
      = (''INSERT INTO '' @ tn @ '' ('' @ idf @ '', '' @ cn @ '') '') @ ''VALUES (123456, 'test')''"
    by (simp add: insert_sql_def)
  then have a: "suffix ''VALUES (123456, 'test')'' (insert_sql tn idf cn)"
    unfolding suffix_def by blast
  have b: "placeholder_count (insert_sql tn idf cn)
       = placeholder_count tn + placeholder_count idf + placeholder_count cn"
    unfolding insert_sql_def placeholder_count_append
    by (simp add: placeholder_count_def)
  from t a b show ?thesis by simp
qed


text \<open>
  C2 (as the specification states it) fails on the code: with the names of cell 4 the
  text holds both values of the inserted row literally and has no placeholder for the
  two values.
\<close>

theorem insert_sql_embeds_values:
  "sublist ''123456'' (insert_sql ''my_table_2'' ''my_1st_column'' ''my_2nd_column'')
   \<and> sublist '' 'test')'' (insert_sql ''my_table_2'' ''my_1st_column'' ''my_2nd_column'')
   \<and> placeholder_count (insert_sql ''my_table_2'' ''my_1st_column'' ''my_2nd_column'') = 0
   \<and> length inserted_values = 2"
  by code_simp

subsection \<open>Names as the engine reads them\<close>

lemma lowers:
  "lower ''my_table_1'' = ''my_table_1''" "lower ''my_table_2'' = ''my_table_2''"
  "lower ''my_table_3'' = ''my_table_3''" "lower ''mytable9'' = ''mytable9''"
  "lower ''order'' = ''order''"
  by (simp_all add: lower_def lower_char_def)

lemma plain_names:
  "plain_name ''my_table_1''" "plain_name ''my_table_2''" "plain_name ''my_table_3''"
  "plain_name ''mytable9''" "plain_name ''id''" "plain_name ''date''" "plain_name ''time''"
  "plain_name ''date_time''" "plain_name ''my_1st_column''"
  by (simp_all add: plain_name_def spec_identifier_def spec_ident_start_def spec_ident_char_def
      ascii_alnum_def lower_def lower_char_def sql_keywords_def)

lemma readings:
  "read_name ''order'' = Reserved" "read_name ''123'' = Number 123"
  by (simp_all add: read_name_def plain_name_def spec_identifier_def spec_ident_start_def
      spec_ident_char_def ascii_alnum_def lower_def lower_char_def sql_keywords_def
      reserved_words_def is_digit_def leading_int_def)

lemma lower_table_names:
  "lower n = ''mytable9'' \<Longrightarrow> n \<noteq> ''my_table_2'' \<and> n \<noteq> ''my_table_3''"
  by (auto simp: lower_def lower_char_def)

lemma read_plain_name: "plain_name n \<Longrightarrow> read_name n = Name"
  by (simp add: read_name_def)

lemma lower_char_idem: "lower_char (lower_char ch) = lower_char ch"
  by (simp add: lower_char_def)

lemma lower_idem: "lower (lower n) = lower n"
  by (simp add: lower_def lower_char_idem)

lemma find_table_stored [simp]: "db tn = Some t \<Longrightarrow> find_table own db tn = Found t"
  by (simp add: find_table_def)

lemma find_table_missing:
  assumes "plain_name tn" "\<forall>n. lower n = lower tn \<longrightarrow> db n = None" "\<not> own (lower tn)"
  shows "find_table own db tn = Missing"
proof -
  from assms(2) have "db tn = None" by blast
  moreover from assms(2) lower_idem [of tn] have "db (lower tn) = None" by blast
  ultimately show ?thesis
    using assms(1,3) by (simp add: find_table_def read_plain_name)
qed




subsection \<open>Sessions under the summary functions\<close>




lemma execute_closed:
  "w h = None \<or> (\<exists>s. w h = Some s \<and> \<not> is_open s) \<Longrightarrow> execute h q w = (Inl ProgrammingError, w)"
  by (auto simp: execute_def)


lemma execute_failed:
  assumes "w h = Some s" "is_open s" "run_stmt (engine s) q (working s) = Inl e"
  shows "\<exists>w1. execute h q w = (Inl e, w1) \<and> issued h [q] w w1"
proof -
  let ?s1 = "s\<lparr>history := history s @ [q]\<rparr>"
  have "execute h q w = (Inl e, w(h \<mapsto> ?s1))"
    using assms by (simp add: execute_def)
  moreover have "issued h [q] w (w(h \<mapsto> ?s1))"
    unfolding issued_def using assms(1) by (intro exI [of _ s] exI [of _ ?s1]) simp
  ultimately show ?thesis by simp
qed



lemma total_rows_closed:
  "w h = None \<or> (\<exists>s. w h = Some s \<and> \<not> is_open s) \<Longrightarrow> total_rows h tn w = (Inl ProgrammingError, w)"
  by (simp add: total_rows_def execute_closed)

lemma total_rows_missing:
  assumes "w h = Some s" "is_open s" "find_table (own_table (engine s)) (working s) tn = Missing"
  shows "\<exists>w1. total_rows h tn w = (Inl (NoSuchTable tn), w1) \<and> issued h [CountRows tn] w w1"
proof -
  have "run_stmt (engine s) (CountRows tn) (working s) = Inl (NoSuchTable tn)"
    using assms by simp
  from execute_failed [of w h s _ _, OF assms(1,2) this] show ?thesis
    by (auto simp: total_rows_def)
qed

lemma total_rows_refused:
  assumes "w h = Some s" "is_open s" "find_table (own_table (engine s)) (working s) tn = Refused"
  shows "\<exists>w1. total_rows h tn w = (Inl SyntaxError, w1) \<and> issued h [CountRows tn] w w1"
proof -
  have "run_stmt (engine s) (CountRows tn) (working s) = Inl SyntaxError"
    using assms by simp
  from execute_failed [of w h s _ _, OF assms(1,2) this] show ?thesis
    by (auto simp: total_rows_def)
qed











subsection \<open>The dictionary of \<^verbatim>\<open>values_in_col\<close>\<close>







subsection \<open>The summary of a table\<close>




lemma main_summary_closed:
  "w c = None \<or> (\<exists>s. w c = Some s \<and> \<not> is_open s) \<Longrightarrow> main_summary c tn w = (Inl ProgrammingError, w)"
  by (simp add: main_summary_def total_rows_closed)

lemma main_summary_missing:
  assumes "w c = Some s" "is_open s" "find_table (own_table (engine s)) (working s) tn = Missing"
  shows "\<exists>w1. main_summary c tn w = (Inl (NoSuchTable tn), w1) \<and> issued c [CountRows tn] w w1"
  using total_rows_missing [of w c s tn, OF assms] by (auto simp: main_summary_def)

lemma main_summary_refused:
  assumes "w c = Some s" "is_open s" "find_table (own_table (engine s)) (working s) tn = Refused"
  shows "\<exists>w1. main_summary c tn w = (Inl SyntaxError, w1) \<and> issued c [CountRows tn] w w1"
  using total_rows_refused [of w c s tn, OF assms] by (auto simp: main_summary_def)

text \<open>
  C5 (as the code has it). Let the table name be plain (of the identifier grammar and no
  SQL keyword), let the open session's database have no table of that name, as written
  or in lower case, and let it not be a name the engine keeps for a table of its own.
  Then the engine fails the COUNT statement with "no such table", and the main block's
  calls end with that very error: the one statement issued is the COUNT, and there is no
  summary, not even a part.
\<close>

theorem main_summary_missing_table:
  assumes "w c = Some s" and "is_open s"
    and "plain_name tn"
    and "\<forall>n. lower n = lower tn \<longrightarrow> working s n = None"
    and "\<not> own_table (engine s) (lower tn)"
  shows "run_stmt (engine s) (CountRows tn) (working s) = Inl (NoSuchTable tn)
    \<and> fst (main_summary c tn w) = Inl (NoSuchTable tn)
    \<and> issued c [CountRows tn] w (snd (main_summary c tn w))"
proof -
  have missing: "find_table (own_table (engine s)) (working s) tn = Missing"
    using assms(3-5) by (rule find_table_missing)
  from main_summary_missing [of w c s tn, OF assms(1,2) missing] missing show ?thesis by auto
qed

text \<open>The notebook's database has no table \<^verbatim>\<open>mytable9\<close>, a name \<open>clean_name\<close> keeps.\<close>

theorem main_summary_missing_table_witness:
  "clean_name ascii_only ''mytable9'' = ''mytable9''
   \<and> fst (main_summary 0 ''mytable9'' [0 \<mapsto> fresh_session my_first_db]) = Inl (NoSuchTable ''mytable9'')"
  using main_summary_missing_table
    [of "[0 \<mapsto> fresh_session my_first_db]" 0 "fresh_session my_first_db" "''mytable9''"]
  by (simp add: fresh_session_def my_first_db_def clean_name_def isalnum_def ascii_alnum_def
      plain_names lowers engine_table_def an_engine_def lower_table_names)

text \<open>
  C5 (as the specification states it) fails on the code. \<^verbatim>\<open>order\<close> is of the identifier
  grammar, \<open>clean_name\<close> leaves it as it is, and the notebook's database has no table of
  that name; but \<^verbatim>\<open>SELECT COUNT(*) FROM order\<close> is a syntax error, and that is the error the
  main block's calls end with, not "no such table".
\<close>

theorem main_summary_keyword_table:
  "spec_identifier ''order''
   \<and> clean_name ascii_only ''order'' = ''order''
   \<and> my_first_db ''order'' = None
   \<and> fst (main_summary 0 ''order'' [0 \<mapsto> fresh_session my_first_db]) = Inl SyntaxError"
proof -
  have a: "spec_identifier ''order''" "clean_name ascii_only ''order'' = ''order''"
    by (simp_all add: spec_identifier_def spec_ident_start_def spec_ident_char_def
        ascii_alnum_def isalnum_def clean_name_def)
  have b: "my_first_db ''order'' = None"
    by (simp add: my_first_db_def)
  then have "find_table (own_table (engine (fresh_session my_first_db)))
      (working (fresh_session my_first_db)) ''order'' = Refused"
    by (simp add: find_table_def fresh_session_def readings)
  from main_summary_refused [of "[0 \<mapsto> fresh_session my_first_db]" 0 "fresh_session my_first_db"
      "''order''", OF _ _ this]
  have "fst (main_summary 0 ''order'' [0 \<mapsto> fresh_session my_first_db]) = Inl SyntaxError"
    by (auto simp: fresh_session_def)
  with a b show ?thesis by simp
qed

subsection \<open>Reading only\<close>










lemma select_or_pragma_reads [simp]:
  "select_or_pragma (CountRows tn)" "select_or_pragma (TableInfo tn)"
  "select_or_pragma (SelectNotNull col tn)"
  by (simp_all add: select_or_pragma_def)





text \<open>
  C7. The summary functions only read. Each of \<^verbatim>\<open>total_rows\<close>, \<^verbatim>\<open>table_col_info\<close> and
  \<^verbatim>\<open>values_in_col\<close> (whatever the module-level \<^verbatim>\<open>c\<close> is bound to), and the main block's
  three calls together, leave a world in which every session has the committed and the
  working database it had (nothing written, nothing committed), and in which every
  statement that was issued is a SELECT or a PRAGMA by its text. This holds in every
  world, also where a call fails.
\<close>


subsection \<open>Two runs\<close>

























text \<open>
  C8 fails on the code. \<^verbatim>\<open>values_in_col\<close> is called three times below with the same
  explicit arguments (cursor 0, \<^verbatim>\<open>my_table_3\<close>) in the same world; only the binding of
  the module-level \<^verbatim>\<open>c\<close> differs. Bound to cursor 0 it counts the row of the notebook's
  database; bound to cursor 1 it counts in the other session's database and returns 0 for
  every column; not bound, the call ends with a NameError.
\<close>

theorem values_in_col_reads_global_c:
  "fst (values_in_col (Some 0) 0 ''my_table_3'' two_sessions)
     = Inr [(TextV ''id'', 1), (TextV ''date'', 1), (TextV ''time'', 1), (TextV ''date_time'', 1)]
   \<and> fst (values_in_col (Some 1) 0 ''my_table_3'' two_sessions)
     = Inr [(TextV ''id'', 0), (TextV ''date'', 0), (TextV ''time'', 0), (TextV ''date_time'', 0)]
   \<and> fst (values_in_col None 0 ''my_table_3'' two_sessions) = Inl NameError"
  by (simp add: values_in_col_def execute_def fetchall_def two_sessions_def fresh_session_def
      my_first_db_def other_db_def my_table_3_def plain_column_def table_info_def descriptor_def
      index_def not_null_rows_def cell_def find_table_def plain_names read_plain_name lower_def
      lower_char_def)

subsection \<open>The insert of cell 4\<close>






subsection \<open>The age query of cell 7\<close>

lemma dates:
  "sql_date march_6th = ''2014-03-06''" "sql_time march_6th = ''16:42:30''"
  "sql_date march_1st = ''2014-03-01''" "sql_time march_1st = ''10:00:00''"
  by (simp_all add: sql_date_def sql_time_def zero_pad_def digit_chars.simps march_6th_def march_1st_def)
lemma leading:
  "leading_int ''2014-03-06'' = 2014" "leading_int ''2014-03-01'' = 2014" "leading_int ''10:00:00'' = 10"
  by (simp_all add: leading_int_def is_digit_def)

text \<open>
  C9. An entry written on 2014-03-01 at 10:00:00 is, on 2014-03-06 at 16:42:30, older
  than 1 day and 12 hours, and the query of cell 7 does not select it: both dates start
  with 2014, so the first difference is 0. (The first conjunct: on 2014-03-06 at 16:42:30
  cell 7 writes the very row the notebook shows.)
\<close>

theorem age_query_misses_old_entry:
  "rows my_table_3 = [entry_row ''some_id1'' march_6th]
   \<and> older_than_1day_12hrs march_6th march_1st
   \<and> older_entries march_6th ''id'' ''my_table_3'' ''date'' ''time''
        [''my_table_3'' \<mapsto> my_table_3\<lparr>rows := [entry_row ''some_id1'' march_1st]\<rparr>] = Inr []"
proof -
  have a: "rows my_table_3 = [entry_row ''some_id1'' march_6th]"
    by (simp add: my_table_3_def entry_row_def dates)
  have b: "older_than_1day_12hrs march_6th march_1st"
    by (simp add: older_than_1day_12hrs_def seconds_of_def day_number_def march_6th_def
        march_1st_def month_lengths_def leap_year_def)
  have c: "older_entries march_6th ''id'' ''my_table_3'' ''date'' ''time''
        [''my_table_3'' \<mapsto> my_table_3\<lparr>rows := [entry_row ''some_id1'' march_1st]\<rparr>] = Inr []"
    by (simp add: older_entries_def my_table_3_def plain_column_def entry_row_def dates cell_def
        older_condition_def sql_minus_def sql_ge_def leading)
  from a b c show ?thesis by simp
qed

subsection \<open>\<^verbatim>\<open>close\<close>\<close>

text \<open>
  C10. \<^verbatim>\<open>close\<close> closes the connection and commits nothing: the committed database
  is the one from before the call, and what the connection had changed and not committed
  is gone. Had the commit of the docstring been called first, the committed database
  would be the working one.
\<close>

theorem close_discards_uncommitted:
  assumes "w conn = Some s"
  shows "(\<exists>s'. close conn w conn = Some s' \<and> \<not> is_open s' \<and> committed s' = committed s
            \<and> working s' = committed s)
    \<and> (is_open s \<longrightarrow>
          (\<exists>s'. close conn (snd (commit conn w)) conn = Some s' \<and> committed s' = working s))"
  using assms by (simp add: close_def conn_close_def commit_def)

lemma pending_insert_session:
  "pending_insert 0 =
     Some \<lparr>committed = [''my_table_2'' \<mapsto> my_table_2\<lparr>rows := []\<rparr>],
           working = [''my_table_2'' \<mapsto> my_table_2],
           fetched = [],
           history = [InsertRow ''my_table_2'' ''my_1st_column'' ''my_2nd_column''],
           is_open = True,
           engine = an_engine\<rparr>"
  by (simp add: pending_insert_def insert_or_report_def execute_def fresh_session_def
      insert_row_def inserted_values_def my_table_2_def new_row_def pk_conflict_def pk_indices_def
      upt_rec)

text \<open>
  After the insert of cell 4 into the empty table the row is in the working database
  only; after \<^verbatim>\<open>close\<close> the connection is closed and the committed table has no row.
\<close>

theorem close_discards_uncommitted_witness:
  "map_option (\<lambda>s. map_option rows (working s ''my_table_2'')) (pending_insert 0)
     = Some (Some [[IntV 123456, TextV ''test'', TextV ''Hello World'']])
   \<and> map_option (\<lambda>s. (is_open s, map_option rows (committed s ''my_table_2'')))
       (close 0 pending_insert 0) = Some (False, Some [])"
  using close_discards_uncommitted [of pending_insert 0 "the (pending_insert 0)"]
  by (auto simp: pending_insert_session my_table_2_def)

subsection \<open>Scenario B of the specification\<close>

text \<open>
  With the engine's insert on the table \<^verbatim>\<open>(id INTEGER PRIMARY KEY, name TEXT)\<close>: the row
  \<^verbatim>\<open>(1, "Alice")\<close> goes in, the row \<^verbatim>\<open>(1, "Bob")\<close> is refused, and the table has one row.
\<close>

lemma scenario_B:
  "insert_row ''students'' [''id'', ''name''] [IntV 1, TextV ''Alice'']
      [''students'' \<mapsto> students\<lparr>rows := []\<rparr>] = Inr [''students'' \<mapsto> students]
   \<and> insert_row ''students'' [''id'', ''name''] [IntV 1, TextV ''Bob''] [''students'' \<mapsto> students]
      = Inl IntegrityError
   \<and> run_stmt an_engine (CountRows ''students'') [''students'' \<mapsto> students]
      = Inr ([[IntV 1]], [''students'' \<mapsto> students])"
  by (simp add: insert_row_def students_def new_row_def pk_conflict_def pk_indices_def cell_def upt_rec
      find_table_def)

end
